theory Spec2Isabelle
  imports Complex_Main "HOL-Library.Word"
begin

unbundle bit_operations_syntax

section \<open>Register map (const.py)\<close>

text \<open>
  The register numbers and code-to-label tables of \<^verbatim>\<open>const.py\<close>. Registers hold
  Python integers, modelled as \<^typ>\<open>int\<close>. A dict literal with distinct keys is an
  association list read with \<^const>\<open>map_of\<close>.
\<close>

definition REG_SERIAL_0 :: int where "REG_SERIAL_0 = 4010"
definition REG_ACTIVE_FUNCTION :: int where "REG_ACTIVE_FUNCTION = 4020"
definition REG_FAN_INLET_STATUS :: int where "REG_FAN_INLET_STATUS = 4030"
definition REG_FAN_EXHAUST_STATUS :: int where "REG_FAN_EXHAUST_STATUS = 4040"
definition REG_BYPASS_STATUS :: int where "REG_BYPASS_STATUS = 4050"
definition REG_PREHEATER_STATUS :: int where "REG_PREHEATER_STATUS = 4060"
definition REG_FROST_STATUS :: int where "REG_FROST_STATUS = 4070"
definition REG_OUTSIDE_TEMP :: int where "REG_OUTSIDE_TEMP = 4081"
definition REG_FILTER_STATUS :: int where "REG_FILTER_STATUS = 4100"
definition REG_OPERATING_HOURS_HI :: int where "REG_OPERATING_HOURS_HI = 4113"
definition REG_CO2_SENSOR1_VALUE :: int where "REG_CO2_SENSOR1_VALUE = 4201"
definition REG_SYSTEM_ERROR_STATUS :: int where "REG_SYSTEM_ERROR_STATUS = 4800"
definition REG_FLOW_PRESET_0 :: int where "REG_FLOW_PRESET_0 = 6000"
definition REG_BYPASS_MODE :: int where "REG_BYPASS_MODE = 6100"
definition REG_FILTER_WARNING_DAYS :: int where "REG_FILTER_WARNING_DAYS = 6120"
definition REG_MODBUS_CONTROL :: int where "REG_MODBUS_CONTROL = 8000"
definition REG_SWITCH_POSITION :: int where "REG_SWITCH_POSITION = 8001"
definition REG_DESIRED_FLOW_RATE :: int where "REG_DESIRED_FLOW_RATE = 8002"

definition ACTIVE_FUNCTION_MAP :: "(int \<times> string) list" where
  "ACTIVE_FUNCTION_MAP =
    [(0, ''Standby''), (1, ''Bootloader''), (4, ''Manual''), (5, ''Holiday''),
     (6, ''Night Ventilation''), (7, ''Party''), (8, ''Bypass Boost''),
     (9, ''Normal Boost''), (10, ''Auto CO2''), (11, ''Auto eBus''),
     (12, ''Auto Modbus''), (13, ''Auto LAN/WLAN Portal''),
     (14, ''Auto LAN/WLAN Local'')]"

definition VENTILATION_MODE_MAP :: "(int \<times> string) list" where
  "VENTILATION_MODE_MAP =
    [(0, ''Holiday''), (1, ''Low''), (2, ''Normal''), (3, ''High''), (4, ''Auto'')]"

definition BYPASS_STATUS_MAP :: "(int \<times> string) list" where
  "BYPASS_STATUS_MAP =
    [(0, ''Initializing''), (1, ''Opening''), (2, ''Closing''), (3, ''Open''),
     (4, ''Closed'')]"

definition BYPASS_MODE_MAP :: "(int \<times> string) list" where
  "BYPASS_MODE_MAP = [(0, ''Automatic''), (1, ''Closed''), (2, ''Open'')]"

definition FILTER_STATUS_MAP :: "(int \<times> string) list" where
  "FILTER_STATUS_MAP = [(0, ''Clean''), (1, ''Dirty'')]"

definition SYSTEM_ERROR_MAP :: "(int \<times> string) list" where
  "SYSTEM_ERROR_MAP =
    [(0, ''No Error''), (1, ''Warning''), (2, ''Non-blocking Error''),
     (3, ''Blocking Error'')]"

definition FAN_STATUS_MAP :: "(int \<times> string) list" where
  "FAN_STATUS_MAP =
    [(2, ''No Communication''), (3, ''Idle''), (4, ''Running''), (5, ''Blocked''),
     (6, ''Fan Error'')]"

definition PREHEATER_STATUS_MAP :: "(int \<times> string) list" where
  "PREHEATER_STATUS_MAP =
    [(0, ''Initializing''), (1, ''Inactive''), (2, ''Active''), (3, ''Test Mode'')]"

definition AIRFLOW_MODE_TO_SWITCH :: "(string \<times> int) list" where
  "AIRFLOW_MODE_TO_SWITCH =
    [(''holiday'', 0), (''low'', 1), (''normal'', 2), (''high'', 3)]"

text \<open>
  \<^verbatim>\<open>{v: k for k, v in M.items()}\<close>: the comprehension stores the pairs in order, a
  later pair overwriting an earlier one with the same new key.
\<close>

definition reverse_dict :: "('k \<times> 'v) list \<Rightarrow> ('v \<rightharpoonup> 'k)" where
  "reverse_dict items = fold (\<lambda>(k, v) m. m(v \<mapsto> k)) items Map.empty"

definition BYPASS_MODE_REVERSE :: "string \<rightharpoonup> int" where
  "BYPASS_MODE_REVERSE = reverse_dict BYPASS_MODE_MAP"

definition SWITCH_TO_AIRFLOW_MODE :: "int \<rightharpoonup> string" where
  "SWITCH_TO_AIRFLOW_MODE = reverse_dict AIRFLOW_MODE_TO_SWITCH"

section \<open>Decoder (modbus\_client.py)\<close>

subsection \<open>Values of a snapshot\<close>

text \<open>
  The snapshot is a \<^verbatim>\<open>dict[str, Any]\<close>. Its values are integers, strings, numbers
  with one decimal, or Python's \<^verbatim>\<open>None\<close> (a key that is present and holds no value).
  Numbers with decimals are exact rationals: the division by \<^verbatim>\<open>10.0\<close> and
  \<^verbatim>\<open>round(_, 1)\<close> are computed in exact arithmetic, not in binary floating point.
\<close>

datatype val = VInt int | VNum rat | VStr string | VNone

type_synonym snapshot = "string \<rightharpoonup> val"

subsection \<open>Formatting an integer, as \<^verbatim>\<open>str\<close> and an f-string field do\<close>

definition digit_char :: "nat \<Rightarrow> char" where
  "digit_char d = ''0123456789'' ! d"

fun digits :: "nat \<Rightarrow> string" where
  "digits n = (if n < 10 then [digit_char n] else digits (n div 10) @ [digit_char (n mod 10)])"

declare digits.simps [simp del]

definition str_int :: "int \<Rightarrow> string" where
  "str_int i = (if i < 0 then CHR ''-'' # digits (nat (- i)) else digits (nat i))"

text \<open>\<^verbatim>\<open>M.get(code, f"Unknown ({code})")\<close>\<close>

definition label_of :: "(int \<times> string) list \<Rightarrow> int \<Rightarrow> string" where
  "label_of table code =
     (case map_of table code of
        Some label \<Rightarrow> label
      | None \<Rightarrow> ''Unknown ('' @ str_int code @ '')'')"

subsection \<open>Signed values, tenths and sentinels\<close>

text \<open>\<^verbatim>\<open>_to_signed\<close>, lines 215-220.\<close>

definition to_signed :: "int \<Rightarrow> int" where
  "to_signed v = (if v \<ge> 0x8000 then v - 0x10000 else v)"

text \<open>
  \<^verbatim>\<open>round(x, 1)\<close>: the nearest number with one decimal, a tie going to the even
  last digit.
\<close>

definition round_half_even :: "rat \<Rightarrow> int" where
  "round_half_even y =
     (let f = \<lfloor>y\<rfloor>; d = y - of_int f in
      if d < 1 / 2 then f
      else if 1 / 2 < d then f + 1
      else if even f then f else f + 1)"

definition round1 :: "rat \<Rightarrow> rat" where
  "round1 x = of_int (round_half_even (x * 10)) / 10"

text \<open>\<^verbatim>\<open>round(v / 10.0, 1)\<close>\<close>

definition tenths :: "int \<Rightarrow> rat" where
  "tenths v = round1 (of_int v / 10)"

text \<open>
  \<^verbatim>\<open>round(r / 10.0, 1) if r <= 1000 else None\<close>: the expression of lines 252, 264
  and 296, applied to registers 4037, 4047 and 4083.
\<close>

definition humidity :: "int \<Rightarrow> val" where
  "humidity r = (if r \<le> 1000 then VNum (tenths r) else VNone)"

subsection \<open>Serial number, lines 329-335\<close>

text \<open>
  The f-string prints each of the four nibbles of a register as a decimal integer; the
  loop appends the four fields of each register to \<^verbatim>\<open>serial\<close>.
\<close>

definition nibble_fields :: "int \<Rightarrow> string" where
  "nibble_fields reg =
     str_int (drop_bit 12 reg AND 0xF) @ str_int (drop_bit 8 reg AND 0xF) @
     str_int (drop_bit 4 reg AND 0xF) @ str_int (reg AND 0xF)"

fun serial_loop :: "int list \<Rightarrow> string \<Rightarrow> string" where
  "serial_loop [] serial = serial"
| "serial_loop (reg # regs) serial = serial_loop regs (serial @ nibble_fields reg)"

definition serial_number :: "int list \<Rightarrow> string" where
  "serial_number regs = serial_loop regs []"

text \<open>
  The digit string the specification describes: one character per nibble, most
  significant nibble first, the registers in the order read.
\<close>

definition bcd_digits :: "int \<Rightarrow> string" where
  "bcd_digits reg = map (\<lambda>s. digit_char (nat (drop_bit s reg AND 0xF))) [12, 8, 4, 0]"

definition bcd_word :: "int \<Rightarrow> bool" where
  "bcd_word reg \<longleftrightarrow>
     0 \<le> reg \<and> reg \<le> 0xFFFF \<and>
     drop_bit 12 reg AND 0xF \<le> 9 \<and> drop_bit 8 reg AND 0xF \<le> 9 \<and>
     drop_bit 4 reg AND 0xF \<le> 9 \<and> reg AND 0xF \<le> 9"

section \<open>Transport client (modbus\_client.py)\<close>

subsection \<open>The device behind the library client\<close>

text \<open>
  The pymodbus client object is modelled by what it answers: a \<open>device\<close> maps the
  requests issued so far and the present request to a reply. A reply carries registers
  (\<^verbatim>\<open>isError()\<close> false), is an error response (\<^verbatim>\<open>isError()\<close> true), or is one of
  the three exceptions the helpers catch. The client state is the handle
  \<^verbatim>\<open>self._client\<close> (absent until \<^verbatim>\<open>connect\<close> stores one) and the log of the
  requests handed to the library, oldest first. The lock and the pacing delay of the
  helpers are not part of this model.
\<close>

datatype error = AttributeError | IndexError

datatype exn = ModbusException | TimeoutError | ConnectionError

datatype request = ReadInput int int | ReadHolding int int | WriteRegister int int

datatype reply = Answer "int list" | ErrorResponse | Raises exn

type_synonym device = "request list \<Rightarrow> request \<Rightarrow> reply"

record client =
  handle :: "device option"
  requests :: "request list"

text \<open>\<^verbatim>\<open>__init__\<close>, line 111: the handle starts as \<^verbatim>\<open>None\<close>.\<close>

definition init_client :: client where
  "init_client = \<lparr>handle = None, requests = []\<rparr>"

text \<open>
  An operation either raises (\<open>Inl\<close>) or returns a value (\<open>Inr\<close>); both carry the
  client state at that point, so the requests issued before a raise stay in the log.
\<close>

definition bnd ::
  "error \<times> client + 'a \<times> client \<Rightarrow> ('a \<Rightarrow> client \<Rightarrow> error \<times> client + 'b \<times> client) \<Rightarrow> error \<times> client + 'b \<times> client" where
  "bnd m f = (case m of Inl e \<Rightarrow> Inl e | Inr (x, c) \<Rightarrow> f x c)"

definition sent :: "client \<Rightarrow> request \<Rightarrow> client" where
  "sent c rq = c\<lparr>requests := requests c @ [rq]\<rparr>"

subsection \<open>Low-level helpers, lines 165-211\<close>

text \<open>
  \<^verbatim>\<open>self._client.read_input_registers\<close> on an absent handle raises AttributeError,
  which the \<^verbatim>\<open>except\<close> clause does not list.
\<close>

definition read_input_registers ::
  "client \<Rightarrow> int \<Rightarrow> int \<Rightarrow> error \<times> client + int list option \<times> client" where
  "read_input_registers c address count =
     (case handle c of
        None \<Rightarrow> Inl (AttributeError, c)
      | Some dev \<Rightarrow>
          (case dev (requests c) (ReadInput address count) of
             Answer registers \<Rightarrow> Inr (Some registers, sent c (ReadInput address count))
           | ErrorResponse \<Rightarrow> Inr (None, sent c (ReadInput address count))
           | Raises exc \<Rightarrow> Inr (None, sent c (ReadInput address count))))"

definition read_holding_registers ::
  "client \<Rightarrow> int \<Rightarrow> int \<Rightarrow> error \<times> client + int list option \<times> client" where
  "read_holding_registers c address count =
     (case handle c of
        None \<Rightarrow> Inl (AttributeError, c)
      | Some dev \<Rightarrow>
          (case dev (requests c) (ReadHolding address count) of
             Answer registers \<Rightarrow> Inr (Some registers, sent c (ReadHolding address count))
           | ErrorResponse \<Rightarrow> Inr (None, sent c (ReadHolding address count))
           | Raises exc \<Rightarrow> Inr (None, sent c (ReadHolding address count))))"

definition write_register :: "client \<Rightarrow> int \<Rightarrow> int \<Rightarrow> error \<times> client + bool \<times> client" where
  "write_register c address v =
     (case handle c of
        None \<Rightarrow> Inl (AttributeError, c)
      | Some dev \<Rightarrow>
          (case dev (requests c) (WriteRegister address v) of
             Answer registers \<Rightarrow> Inr (True, sent c (WriteRegister address v))
           | ErrorResponse \<Rightarrow> Inr (False, sent c (WriteRegister address v))
           | Raises exc \<Rightarrow> Inr (False, sent c (WriteRegister address v))))"

subsection \<open>Connection, lines 116-156\<close>

text \<open>
  \<^verbatim>\<open>connect\<close> builds the library client and stores it in the handle, then awaits its
  \<^verbatim>\<open>connect()\<close>; any exception is caught and gives \<^verbatim>\<open>False\<close>. The two outcomes that
  are the library's are parameters: \<open>built\<close> is the client the constructor returns
  (\<open>None\<close> when it raises, the handle then keeps its value), \<open>link\<close> is what the
  library's \<^verbatim>\<open>connect()\<close> returns (\<open>None\<close> when it raises). \<^verbatim>\<open>close\<close> leaves handle
  and log as they are.
\<close>

definition connect :: "client \<Rightarrow> device option \<Rightarrow> bool option \<Rightarrow> bool \<times> client" where
  "connect c built link =
     (case built of
        None \<Rightarrow> (False, c)
      | Some dev \<Rightarrow>
          (case link of
             None \<Rightarrow> (False, c\<lparr>handle := Some dev\<rparr>)
           | Some up \<Rightarrow> (up, c\<lparr>handle := Some dev\<rparr>)))"

definition close :: "client \<Rightarrow> client" where
  "close c = c"

subsection \<open>Indexing a register list\<close>

text \<open>\<^verbatim>\<open>regs[i]\<close> with a constant index \<open>i\<close>: IndexError beyond the end of the list.\<close>

definition idx :: "int list \<Rightarrow> nat \<Rightarrow> error + int" where
  "idx regs i = (if i < length regs then Inr (regs ! i) else Inl IndexError)"

definition bnde :: "error + 'a \<Rightarrow> ('a \<Rightarrow> error + 'b) \<Rightarrow> error + 'b" where
  "bnde m f = (case m of Inl e \<Rightarrow> Inl e | Inr x \<Rightarrow> f x)"

section \<open>Poll read: \<^verbatim>\<open>read_all_data\<close>, lines 224-378\<close>

subsection \<open>The fields of each batch\<close>

text \<open>
  One decoder per batch: the assignments to \<^verbatim>\<open>data\<close> under the batch's
  \<^verbatim>\<open>if regs:\<close>. The registers are read by index first, in the order the source reads
  them; an index beyond the list raises IndexError, and the dictionary built so far is
  lost with the exception.
\<close>

definition decode_core :: "int list \<Rightarrow> snapshot \<Rightarrow> error + snapshot" where
  "decode_core regs data =
     bnde (idx regs 0) (\<lambda>r0. bnde (idx regs 1) (\<lambda>r1. bnde (idx regs 2) (\<lambda>r2.
     bnde (idx regs 3) (\<lambda>r3. bnde (idx regs 4) (\<lambda>r4.
       Inr (data(''active_function'' \<mapsto> VStr (label_of ACTIVE_FUNCTION_MAP r0),
                 ''active_function_raw'' \<mapsto> VInt r0,
                 ''fan_control_type'' \<mapsto> VInt r1,
                 ''ventilation_mode'' \<mapsto> VStr (label_of VENTILATION_MODE_MAP r2),
                 ''ventilation_mode_raw'' \<mapsto> VInt r2,
                 ''supply_pressure'' \<mapsto> VNum (tenths (to_signed r3)),
                 ''exhaust_pressure'' \<mapsto> VNum (tenths (to_signed r4)))))))))"

definition decode_supply_fan :: "int list \<Rightarrow> snapshot \<Rightarrow> error + snapshot" where
  "decode_supply_fan regs data =
     bnde (idx regs 0) (\<lambda>r0. bnde (idx regs 1) (\<lambda>r1. bnde (idx regs 2) (\<lambda>r2.
     bnde (idx regs 3) (\<lambda>r3. bnde (idx regs 4) (\<lambda>r4. bnde (idx regs 6) (\<lambda>r6.
     bnde (idx regs 7) (\<lambda>r7.
       Inr (data(''fan_inlet_status'' \<mapsto> VStr (label_of FAN_STATUS_MAP r0),
                 ''supply_airflow_setpoint'' \<mapsto> VInt r1,
                 ''supply_airflow_actual'' \<mapsto> VInt r2,
                 ''supply_massflow'' \<mapsto> VInt r3,
                 ''supply_fan_speed'' \<mapsto> VInt r4,
                 ''supply_fan_temperature'' \<mapsto> VNum (tenths (to_signed r6)),
                 ''supply_fan_humidity'' \<mapsto> humidity r7)))))))))"

definition decode_exhaust_fan :: "int list \<Rightarrow> snapshot \<Rightarrow> error + snapshot" where
  "decode_exhaust_fan regs data =
     bnde (idx regs 0) (\<lambda>r0. bnde (idx regs 2) (\<lambda>r2. bnde (idx regs 4) (\<lambda>r4.
     bnde (idx regs 6) (\<lambda>r6. bnde (idx regs 7) (\<lambda>r7.
       Inr (data(''fan_exhaust_status'' \<mapsto> VStr (label_of FAN_STATUS_MAP r0),
                 ''exhaust_airflow_actual'' \<mapsto> VInt r2,
                 ''exhaust_fan_speed'' \<mapsto> VInt r4,
                 ''exhaust_fan_temperature'' \<mapsto> VNum (tenths (to_signed r6)),
                 ''exhaust_fan_humidity'' \<mapsto> humidity r7)))))))"

definition decode_bypass_status :: "int list \<Rightarrow> snapshot \<Rightarrow> error + snapshot" where
  "decode_bypass_status regs data =
     bnde (idx regs 0) (\<lambda>r0. bnde (idx regs 1) (\<lambda>r1.
       Inr (data(''bypass_status'' \<mapsto> VStr (label_of BYPASS_STATUS_MAP r0),
                 ''bypass_status_raw'' \<mapsto> VInt r0,
                 ''bypass_step_position'' \<mapsto> VInt r1))))"

definition decode_preheater :: "int list \<Rightarrow> snapshot \<Rightarrow> error + snapshot" where
  "decode_preheater regs data =
     bnde (idx regs 0) (\<lambda>r0. bnde (idx regs 1) (\<lambda>r1.
       Inr (data(''preheater_status'' \<mapsto> VStr (label_of PREHEATER_STATUS_MAP r0),
                 ''preheater_capacity'' \<mapsto> VInt r1))))"

definition decode_frost :: "int list \<Rightarrow> snapshot \<Rightarrow> error + snapshot" where
  "decode_frost regs data =
     bnde (idx regs 0) (\<lambda>r0. bnde (idx regs 1) (\<lambda>r1. bnde (idx regs 2) (\<lambda>r2.
       Inr (data(''frost_status_raw'' \<mapsto> VInt r0,
                 ''frost_heater_power'' \<mapsto> VInt r1,
                 ''frost_fan_reduction'' \<mapsto> VInt r2)))))"

definition decode_temperatures :: "int list \<Rightarrow> snapshot \<Rightarrow> error + snapshot" where
  "decode_temperatures regs data =
     bnde (idx regs 0) (\<lambda>r0. bnde (idx regs 1) (\<lambda>r1. bnde (idx regs 2) (\<lambda>r2.
     bnde (idx regs 3) (\<lambda>r3.
       let val = to_signed r2 in
       Inr (data(''flow_switch_position'' \<mapsto> VInt r0,
                 ''outside_temperature'' \<mapsto> VNum (tenths (to_signed r1)),
                 ''dwelling_temperature'' \<mapsto>
                    (if val \<noteq> 9999 then VNum (tenths val) else VNone),
                 ''rht_humidity'' \<mapsto> humidity r3))))))"

definition decode_filter_status :: "int list \<Rightarrow> snapshot \<Rightarrow> error + snapshot" where
  "decode_filter_status regs data =
     bnde (idx regs 0) (\<lambda>r0.
       Inr (data(''filter_status'' \<mapsto> VStr (label_of FILTER_STATUS_MAP r0))))"

definition decode_operating_hours :: "int list \<Rightarrow> snapshot \<Rightarrow> error + snapshot" where
  "decode_operating_hours regs data =
     bnde (idx regs 0) (\<lambda>r0. bnde (idx regs 1) (\<lambda>r1. bnde (idx regs 2) (\<lambda>r2.
       Inr (data(''operating_hours'' \<mapsto> VInt (push_bit 16 r0 OR r1),
                 ''filter_hours'' \<mapsto> VInt r2)))))"

definition decode_co2 :: "int list \<Rightarrow> snapshot \<Rightarrow> error + snapshot" where
  "decode_co2 regs data =
     bnde (idx regs 0) (\<lambda>r0.
     bnde (if r0 = 4 then bnde (idx regs 1) (\<lambda>r1. Inr (VInt r1)) else Inr VNone) (\<lambda>v1.
     bnde (idx regs 2) (\<lambda>r2.
     bnde (if r2 = 4 then bnde (idx regs 3) (\<lambda>r3. Inr (VInt r3)) else Inr VNone) (\<lambda>v2.
       Inr (data(''co2_sensor1'' \<mapsto> v1, ''co2_sensor2'' \<mapsto> v2))))))"

definition decode_system_error :: "int list \<Rightarrow> snapshot \<Rightarrow> error + snapshot" where
  "decode_system_error regs data =
     bnde (idx regs 0) (\<lambda>r0. bnde (idx regs 1) (\<lambda>r1.
       Inr (data(''system_error'' \<mapsto> VStr (label_of SYSTEM_ERROR_MAP r0),
                 ''system_error_raw'' \<mapsto> VInt r0,
                 ''active_incident'' \<mapsto> (if r1 \<noteq> 0 then VInt r1 else VNone)))))"

definition decode_serial :: "int list \<Rightarrow> snapshot \<Rightarrow> error + snapshot" where
  "decode_serial regs data = Inr (data(''serial_number'' \<mapsto> VStr (serial_number regs)))"

definition decode_flow_presets :: "int list \<Rightarrow> snapshot \<Rightarrow> error + snapshot" where
  "decode_flow_presets regs data =
     bnde (idx regs 0) (\<lambda>r0. bnde (idx regs 1) (\<lambda>r1. bnde (idx regs 2) (\<lambda>r2.
     bnde (idx regs 3) (\<lambda>r3.
       Inr (data(''flow_preset_holiday'' \<mapsto> VInt r0,
                 ''flow_preset_low'' \<mapsto> VInt r1,
                 ''flow_preset_normal'' \<mapsto> VInt r2,
                 ''flow_preset_high'' \<mapsto> VInt r3))))))"

definition decode_bypass_mode :: "int list \<Rightarrow> snapshot \<Rightarrow> error + snapshot" where
  "decode_bypass_mode regs data =
     bnde (idx regs 0) (\<lambda>r0. bnde (idx regs 1) (\<lambda>r1. bnde (idx regs 2) (\<lambda>r2.
       Inr (data(''bypass_mode'' \<mapsto> VStr (label_of BYPASS_MODE_MAP r0),
                 ''bypass_mode_raw'' \<mapsto> VInt r0,
                 ''bypass_temp_dwelling'' \<mapsto> VNum (tenths (to_signed r1)),
                 ''bypass_temp_outside'' \<mapsto> VNum (tenths (to_signed r2)))))))"

definition decode_filter_warning_days :: "int list \<Rightarrow> snapshot \<Rightarrow> error + snapshot" where
  "decode_filter_warning_days regs data =
     bnde (idx regs 0) (\<lambda>r0. Inr (data(''filter_warning_days'' \<mapsto> VInt r0)))"

definition decode_remote_control :: "int list \<Rightarrow> snapshot \<Rightarrow> error + snapshot" where
  "decode_remote_control regs data =
     bnde (idx regs 0) (\<lambda>r0. bnde (idx regs 1) (\<lambda>r1. bnde (idx regs 2) (\<lambda>r2.
     bnde (idx regs 3) (\<lambda>r3.
       Inr (data(''modbus_control'' \<mapsto> VInt r0,
                 ''switch_position'' \<mapsto> VInt r1,
                 ''desired_flow_rate'' \<mapsto> VInt r2,
                 ''standby_status'' \<mapsto> VInt r3,
                 ''airflow_mode'' \<mapsto> VStr
                    (if r0 = 0 then ''wall_unit''
                     else if r0 = 1 then
                       (case SWITCH_TO_AIRFLOW_MODE r1 of
                          Some m \<Rightarrow> m | None \<Rightarrow> ''unknown'')
                     else if r0 = 2 then ''custom''
                     else ''unknown'')))))))"

subsection \<open>The cycle\<close>

text \<open>
  \<^verbatim>\<open>regs = await read(address, count); if regs: ...\<close>: the fields are decoded when
  the read returned a list that is not empty; \<^verbatim>\<open>None\<close> and the empty list both skip
  the block.
\<close>

definition if_regs ::
  "int list option \<Rightarrow> (int list \<Rightarrow> snapshot \<Rightarrow> error + snapshot) \<Rightarrow> snapshot \<Rightarrow>
   error + snapshot" where
  "if_regs regs decode data =
     (case regs of
        None \<Rightarrow> Inr data
      | Some ws \<Rightarrow> if ws = [] then Inr data else decode ws data)"

definition batch ::
  "(client \<Rightarrow> int \<Rightarrow> int \<Rightarrow> error \<times> client + int list option \<times> client) \<Rightarrow> int \<Rightarrow> int \<Rightarrow>
   (int list \<Rightarrow> snapshot \<Rightarrow> error + snapshot) \<Rightarrow> snapshot \<Rightarrow> client \<Rightarrow>
   error \<times> client + snapshot \<times> client" where
  "batch read address count decode data c =
     bnd (read c address count) (\<lambda>regs c'.
       case if_regs regs decode data of
         Inl e \<Rightarrow> Inl (e, c')
       | Inr data' \<Rightarrow> Inr (data', c'))"

text \<open>
  The first read is tested with \<^verbatim>\<open>is None\<close> and ends the cycle without a snapshot;
  every later batch is an \<^verbatim>\<open>if regs:\<close> block.
\<close>

definition read_all_data :: "client \<Rightarrow> error \<times> client + snapshot option \<times> client" where
  "read_all_data c0 =
     bnd (read_input_registers c0 REG_ACTIVE_FUNCTION 5) (\<lambda>regs c.
       case regs of
         None \<Rightarrow> Inr (None, c)
       | Some ws \<Rightarrow>
     bnd (case decode_core ws Map.empty of Inl e \<Rightarrow> Inl (e, c) | Inr d \<Rightarrow> Inr (d, c)) (\<lambda>data c.
     bnd (batch read_input_registers REG_FAN_INLET_STATUS 8 decode_supply_fan data c) (\<lambda>data c.
     bnd (batch read_input_registers REG_FAN_EXHAUST_STATUS 8 decode_exhaust_fan data c) (\<lambda>data c.
     bnd (batch read_input_registers REG_BYPASS_STATUS 2 decode_bypass_status data c) (\<lambda>data c.
     bnd (batch read_input_registers REG_PREHEATER_STATUS 2 decode_preheater data c) (\<lambda>data c.
     bnd (batch read_input_registers REG_FROST_STATUS 3 decode_frost data c) (\<lambda>data c.
     bnd (batch read_input_registers (REG_OUTSIDE_TEMP - 1) 4 decode_temperatures data c) (\<lambda>data c.
     bnd (batch read_input_registers REG_FILTER_STATUS 1 decode_filter_status data c) (\<lambda>data c.
     bnd (batch read_input_registers REG_OPERATING_HOURS_HI 3 decode_operating_hours data c) (\<lambda>data c.
     bnd (batch read_input_registers (REG_CO2_SENSOR1_VALUE - 1) 4 decode_co2 data c) (\<lambda>data c.
     bnd (batch read_input_registers REG_SYSTEM_ERROR_STATUS 2 decode_system_error data c) (\<lambda>data c.
     bnd (batch read_input_registers REG_SERIAL_0 3 decode_serial data c) (\<lambda>data c.
     bnd (batch read_holding_registers REG_FLOW_PRESET_0 4 decode_flow_presets data c) (\<lambda>data c.
     bnd (batch read_holding_registers REG_BYPASS_MODE 3 decode_bypass_mode data c) (\<lambda>data c.
     bnd (batch read_holding_registers REG_FILTER_WARNING_DAYS 1 decode_filter_warning_days data c) (\<lambda>data c.
     bnd (batch read_holding_registers REG_MODBUS_CONTROL 4 decode_remote_control data c) (\<lambda>data c.
       Inr (Some data, c))))))))))))))))))"

subsection \<open>The batches as a table\<close>

text \<open>
  The sixteen reads of \<^verbatim>\<open>read_all_data\<close> in the order they are issued, the decoder
  of each, and the keys each decoder assigns. \<open>batch_reply\<close> is what the read helper
  returns for batch \<open>k\<close> of a cycle that starts with the request log \<open>hist\<close> and gets
  as far as that batch; \<open>batch_fields\<close> is the dictionary the batch's decoder builds from
  its registers alone.
\<close>

definition batch_requests :: "request list" where
  "batch_requests =
    [ReadInput REG_ACTIVE_FUNCTION 5, ReadInput REG_FAN_INLET_STATUS 8,
     ReadInput REG_FAN_EXHAUST_STATUS 8, ReadInput REG_BYPASS_STATUS 2,
     ReadInput REG_PREHEATER_STATUS 2, ReadInput REG_FROST_STATUS 3,
     ReadInput (REG_OUTSIDE_TEMP - 1) 4, ReadInput REG_FILTER_STATUS 1,
     ReadInput REG_OPERATING_HOURS_HI 3, ReadInput (REG_CO2_SENSOR1_VALUE - 1) 4,
     ReadInput REG_SYSTEM_ERROR_STATUS 2, ReadInput REG_SERIAL_0 3,
     ReadHolding REG_FLOW_PRESET_0 4, ReadHolding REG_BYPASS_MODE 3,
     ReadHolding REG_FILTER_WARNING_DAYS 1, ReadHolding REG_MODBUS_CONTROL 4]"

definition batch_decoders :: "(int list \<Rightarrow> snapshot \<Rightarrow> error + snapshot) list" where
  "batch_decoders =
    [decode_core, decode_supply_fan, decode_exhaust_fan, decode_bypass_status,
     decode_preheater, decode_frost, decode_temperatures, decode_filter_status,
     decode_operating_hours, decode_co2, decode_system_error, decode_serial,
     decode_flow_presets, decode_bypass_mode, decode_filter_warning_days,
     decode_remote_control]"

definition batch_keys :: "string list list" where
  "batch_keys =
    [[''active_function'', ''active_function_raw'', ''fan_control_type'',
      ''ventilation_mode'', ''ventilation_mode_raw'', ''supply_pressure'',
      ''exhaust_pressure''],
     [''fan_inlet_status'', ''supply_airflow_setpoint'', ''supply_airflow_actual'',
      ''supply_massflow'', ''supply_fan_speed'', ''supply_fan_temperature'',
      ''supply_fan_humidity''],
     [''fan_exhaust_status'', ''exhaust_airflow_actual'', ''exhaust_fan_speed'',
      ''exhaust_fan_temperature'', ''exhaust_fan_humidity''],
     [''bypass_status'', ''bypass_status_raw'', ''bypass_step_position''],
     [''preheater_status'', ''preheater_capacity''],
     [''frost_status_raw'', ''frost_heater_power'', ''frost_fan_reduction''],
     [''flow_switch_position'', ''outside_temperature'', ''dwelling_temperature'',
      ''rht_humidity''],
     [''filter_status''],
     [''operating_hours'', ''filter_hours''],
     [''co2_sensor1'', ''co2_sensor2''],
     [''system_error'', ''system_error_raw'', ''active_incident''],
     [''serial_number''],
     [''flow_preset_holiday'', ''flow_preset_low'', ''flow_preset_normal'',
      ''flow_preset_high''],
     [''bypass_mode'', ''bypass_mode_raw'', ''bypass_temp_dwelling'',
      ''bypass_temp_outside''],
     [''filter_warning_days''],
     [''modbus_control'', ''switch_position'', ''desired_flow_rate'',
      ''standby_status'', ''airflow_mode'']]"

definition acknowledged :: "reply \<Rightarrow> bool" where
  "acknowledged r = (case r of Answer ws \<Rightarrow> True | ErrorResponse \<Rightarrow> False | Raises exc \<Rightarrow> False)"

definition registers_of :: "reply \<Rightarrow> int list option" where
  "registers_of r = (case r of Answer ws \<Rightarrow> Some ws | ErrorResponse \<Rightarrow> None | Raises exc \<Rightarrow> None)"

definition request_count :: "request \<Rightarrow> int" where
  "request_count rq =
     (case rq of ReadInput a n \<Rightarrow> n | ReadHolding a n \<Rightarrow> n | WriteRegister a v \<Rightarrow> 1)"

definition batch_reply :: "device \<Rightarrow> request list \<Rightarrow> nat \<Rightarrow> int list option" where
  "batch_reply dev hist k =
     registers_of (dev (hist @ take k batch_requests) (batch_requests ! k))"

definition fields_of :: "(int list \<Rightarrow> snapshot \<Rightarrow> error + snapshot) \<Rightarrow> int list \<Rightarrow> snapshot" where
  "fields_of decode ws = (case decode ws Map.empty of Inl e \<Rightarrow> Map.empty | Inr d \<Rightarrow> d)"

definition batch_fields :: "nat \<Rightarrow> int list \<Rightarrow> snapshot" where
  "batch_fields k ws = fields_of (batch_decoders ! k) ws"

text \<open>
  What batch \<open>k\<close> adds to the snapshot, the snapshot before batch \<open>k\<close>, and the
  client state before batch \<open>k\<close>.
\<close>

definition batch_segment :: "device \<Rightarrow> request list \<Rightarrow> nat \<Rightarrow> snapshot" where
  "batch_segment dev hist k =
     (case batch_reply dev hist k of None \<Rightarrow> Map.empty | Some ws \<Rightarrow> batch_fields k ws)"

definition data_upto :: "device \<Rightarrow> request list \<Rightarrow> nat \<Rightarrow> snapshot" where
  "data_upto dev hist k = foldl (++) Map.empty (map (batch_segment dev hist) [0..<k])"

definition at_batch :: "client \<Rightarrow> nat \<Rightarrow> client" where
  "at_batch c k = c\<lparr>requests := requests c @ take k batch_requests\<rparr>"

text \<open>
  A row of the table is sound when the request asks for at least one register and the
  decoder, given as many registers as asked for, adds exactly the row's keys to the
  snapshot, whatever the snapshot held before.
\<close>

definition good_row ::
  "request \<Rightarrow> (int list \<Rightarrow> snapshot \<Rightarrow> error + snapshot) \<Rightarrow> string list \<Rightarrow> bool" where
  "good_row rq decode keys \<longleftrightarrow>
     0 < request_count rq \<and>
     (\<forall>ws. int (length ws) = request_count rq \<longrightarrow>
        dom (fields_of decode ws) = set keys \<and>
        (\<forall>data. decode ws data = Inr (data ++ fields_of decode ws)))"

text \<open>
  A device answers in full when every batch that is answered with registers gets as
  many as the request asked for.
\<close>

definition answers_in_full :: "device \<Rightarrow> request list \<Rightarrow> bool" where
  "answers_in_full dev hist \<longleftrightarrow>
     (\<forall>k < length batch_requests. \<forall>ws.
        batch_reply dev hist k = Some ws \<longrightarrow>
        int (length ws) = request_count (batch_requests ! k))"

section \<open>Write commands, lines 382-417\<close>

definition set_airflow_mode :: "client \<Rightarrow> string \<Rightarrow> error \<times> client + bool \<times> client" where
  "set_airflow_mode c mode =
     (if mode = ''wall_unit'' then write_register c REG_MODBUS_CONTROL 0
      else
        (case map_of AIRFLOW_MODE_TO_SWITCH mode of
           Some code \<Rightarrow>
             bnd (write_register c REG_MODBUS_CONTROL 1) (\<lambda>ok c'.
               if \<not> ok then Inr (False, c')
               else write_register c' REG_SWITCH_POSITION code)
         | None \<Rightarrow> Inr (False, c)))"

definition set_custom_flow_rate :: "client \<Rightarrow> int \<Rightarrow> error \<times> client + bool \<times> client" where
  "set_custom_flow_rate c rate0 =
     (let rate = max 0 (min rate0 400) in
      bnd (write_register c REG_MODBUS_CONTROL 2) (\<lambda>ok c'.
        if \<not> ok then Inr (False, c')
        else write_register c' REG_DESIRED_FLOW_RATE rate))"

definition set_bypass_mode :: "client \<Rightarrow> string \<Rightarrow> error \<times> client + bool \<times> client" where
  "set_bypass_mode c mode =
     (case BYPASS_MODE_REVERSE mode of
        None \<Rightarrow> Inr (False, c)
      | Some code \<Rightarrow> write_register c REG_BYPASS_MODE code)"

subsection \<open>Sequences of calls on one client\<close>

text \<open>
  The methods of the client as calls, and the client state a call leaves behind,
  whether it returns or raises.
\<close>

datatype call =
    Connect "device option" "bool option"
  | Close
  | ReadInputRegisters int int
  | ReadHoldingRegisters int int
  | WriteReg int int
  | ReadAllData
  | SetAirflowMode string
  | SetCustomFlowRate int
  | SetBypassMode string

definition state_after :: "error \<times> client + 'a \<times> client \<Rightarrow> client" where
  "state_after r = (case r of Inl (e, c') \<Rightarrow> c' | Inr (x, c') \<Rightarrow> c')"

fun perform :: "client \<Rightarrow> call \<Rightarrow> client" where
  "perform c (Connect built link) = snd (connect c built link)"
| "perform c Close = close c"
| "perform c (ReadInputRegisters a n) = state_after (read_input_registers c a n)"
| "perform c (ReadHoldingRegisters a n) = state_after (read_holding_registers c a n)"
| "perform c (WriteReg a v) = state_after (write_register c a v)"
| "perform c ReadAllData = state_after (read_all_data c)"
| "perform c (SetAirflowMode m) = state_after (set_airflow_mode c m)"
| "perform c (SetCustomFlowRate r) = state_after (set_custom_flow_rate c r)"
| "perform c (SetBypassMode m) = state_after (set_bypass_mode c m)"

fun is_connect :: "call \<Rightarrow> bool" where
  "is_connect (Connect built link) = True"
| "is_connect other = False"

section \<open>Coordinator (coordinator.py)\<close>
















section \<open>Devices and cycles used as examples\<close>

text \<open>
  A device that answers every read in full with ones, except the bypass-status batch
  (an error response) and the preheater batch (a timeout), and that accepts every write
  except one to the switch-position register.
\<close>

definition demo_device :: device where
  "demo_device hist rq =
     (case rq of
        ReadInput a n \<Rightarrow>
          if a = 4050 then ErrorResponse
          else if a = 4060 then Raises TimeoutError
          else Answer (replicate (nat n) 1)
      | ReadHolding a n \<Rightarrow> Answer (replicate (nat n) 1)
      | WriteRegister a v \<Rightarrow> if a = 8001 then ErrorResponse else Answer [v])"

definition demo_client :: client where
  "demo_client = \<lparr>handle = Some demo_device, requests = []\<rparr>"

text \<open>A device that refuses every request.\<close>

definition dead_device :: device where
  "dead_device hist rq = Raises ConnectionError"

definition dead_client :: client where
  "dead_client = \<lparr>handle = Some dead_device, requests = []\<rparr>"



text \<open>
  A device that answers every read in full with ones, except the frost batch, which it
  answers with two registers where three were requested; and the cycle of a coordinator
  whose connected client talks to that device, with what the coordinator sees of
  \<^verbatim>\<open>read_all_data()\<close> there.
\<close>

definition short_device :: device where
  "short_device hist rq =
     (case rq of
        ReadInput a n \<Rightarrow> if a = 4070 then Answer [1, 2] else Answer (replicate (nat n) 1)
      | ReadHolding a n \<Rightarrow> Answer (replicate (nat n) 1)
      | WriteRegister a v \<Rightarrow> Answer [v])"

definition short_client :: client where
  "short_client = \<lparr>handle = Some short_device, requests = []\<rparr>"



section \<open>Basic facts\<close>

lemmas REG_defs =
  REG_SERIAL_0_def REG_ACTIVE_FUNCTION_def REG_FAN_INLET_STATUS_def
  REG_FAN_EXHAUST_STATUS_def REG_BYPASS_STATUS_def REG_PREHEATER_STATUS_def
  REG_FROST_STATUS_def REG_OUTSIDE_TEMP_def REG_FILTER_STATUS_def
  REG_OPERATING_HOURS_HI_def REG_CO2_SENSOR1_VALUE_def REG_SYSTEM_ERROR_STATUS_def
  REG_FLOW_PRESET_0_def REG_BYPASS_MODE_def REG_FILTER_WARNING_DAYS_def
  REG_MODBUS_CONTROL_def REG_SWITCH_POSITION_def REG_DESIRED_FLOW_RATE_def

lemma handle_sent [simp]: "handle (sent c rq) = handle c"
  by (simp add: sent_def)

lemma requests_sent [simp]: "requests (sent c rq) = requests c @ [rq]"
  by (simp add: sent_def)

lemma bnd_Inr [simp]: "bnd (Inr (x, c)) f = f x c"
  by (simp add: bnd_def)

lemma bnd_Inl [simp]: "bnd (Inl e) f = Inl e"
  by (simp add: bnd_def)

lemma idx_in_range [simp]: "i < length regs \<Longrightarrow> idx regs i = Inr (regs ! i)"
  by (simp add: idx_def)

lemma bnde_Inr [simp]: "bnde (Inr x) f = f x"
  by (simp add: bnde_def)

lemma bnde_Inl [simp]: "bnde (Inl e) f = Inl e"
  by (simp add: bnde_def)

lemma write_register_some:
  "handle c = Some dev \<Longrightarrow>
   write_register c a v =
     Inr (acknowledged (dev (requests c) (WriteRegister a v)), sent c (WriteRegister a v))"
  by (simp add: write_register_def acknowledged_def split: reply.splits)

text \<open>The cycle on the device that answers the frost batch short.\<close>

lemma read_all_data_short_client:
  "read_all_data short_client =
     Inl (IndexError,
          \<lparr>handle = Some short_device,
           requests = [ReadInput 4020 5, ReadInput 4030 8, ReadInput 4040 8, ReadInput 4050 2,
                       ReadInput 4060 2, ReadInput 4070 3]\<rparr>)"
  by (simp add: read_all_data_def batch_def if_regs_def read_input_registers_def
      short_client_def short_device_def sent_def REG_defs idx_def
      decode_core_def decode_supply_fan_def decode_exhaust_fan_def decode_bypass_status_def
      decode_preheater_def decode_frost_def)


section \<open>Decoding\<close>

text \<open>A whole number of tenths is its own rounding to one decimal.\<close>

lemma round_half_even_of_int: "round_half_even (of_int v) = v"
  by (simp add: round_half_even_def)

lemma tenths_exact: "tenths v = of_int v / 10"
  by (simp add: tenths_def round1_def round_half_even_of_int)

text \<open>
  C4. For every 16-bit unsigned word \<open>w\<close> in [0, 65535], the signed decode returns
  \<open>w - 65536\<close> when \<open>w \<ge> 0x8000\<close> and \<open>w\<close> unchanged when \<open>w < 0x8000\<close>; the
  result is a signed 16-bit value.
\<close>

theorem to_signed_spec:
  assumes "0 \<le> w" and "w \<le> 65535"
  shows "(w \<ge> 0x8000 \<longrightarrow> to_signed w = w - 65536) \<and> (w < 0x8000 \<longrightarrow> to_signed w = w) \<and>
         - 32768 \<le> to_signed w \<and> to_signed w \<le> 32767"
  using assms by (simp add: to_signed_def)

theorem to_signed_spec_witness:
  "to_signed 0x8000 = - 32768 \<and> to_signed 0xFFFF = - 1 \<and> to_signed 0x7FFF = 32767 \<and>
   to_signed 0 = 0"
  using to_signed_spec [of "0x8000"] to_signed_spec [of "0xFFFF"] to_signed_spec [of "0x7FFF"]
    to_signed_spec [of 0]
  by simp

text \<open>
  C8. For every raw humidity word \<open>r\<close>, the humidity decode yields no value
  (\<open>VNone\<close>) when \<open>r > 1000\<close>, and \<open>r / 10\<close> rounded to one decimal, which is
  \<open>r / 10\<close> itself, when \<open>r \<le> 1000\<close>; raw 1001 decodes to no value and raw 1000 to
  100.
\<close>

theorem humidity_spec:
  "humidity r = (if r > 1000 then VNone else VNum (round1 (of_int r / 10))) \<and>
   round1 (of_int r / 10) = of_int r / 10 \<and>
   humidity 1001 = VNone \<and> humidity 1000 = VNum 100"
proof -
  have "humidity r = (if r > 1000 then VNone else VNum (round1 (of_int r / 10)))"
    by (simp add: humidity_def tenths_def)
  moreover have "round1 (of_int r / 10) = of_int r / 10"
    using tenths_exact [of r] by (simp add: tenths_def)
  moreover have "humidity 1001 = VNone"
    by (simp add: humidity_def)
  moreover have "humidity 1000 = VNum 100"
    by (simp add: humidity_def tenths_exact)
  ultimately show ?thesis by blast
qed

theorem humidity_spec_witness:
  "humidity 455 = VNum (91 / 2) \<and> humidity 65535 = VNone \<and> humidity 0 = VNum 0"
  using humidity_spec [of 455] humidity_spec [of 65535] humidity_spec [of 0]
  by simp

subsection \<open>Serial number\<close>

lemma digits_small: "n < 10 \<Longrightarrow> digits n = [digit_char n]"
  by (simp add: digits.simps)

lemma str_int_digit: "0 \<le> i \<Longrightarrow> i \<le> 9 \<Longrightarrow> str_int i = [digit_char (nat i)]"
  by (simp add: str_int_def digits_small)

lemma nibble_fields_bcd: "bcd_word reg \<Longrightarrow> nibble_fields reg = bcd_digits reg"
  by (simp add: bcd_word_def nibble_fields_def bcd_digits_def str_int_digit)

lemma serial_loop_append: "serial_loop regs acc = acc @ concat (map nibble_fields regs)"
  by (induction regs arbitrary: acc) simp_all

lemma serial_number_concat: "serial_number regs = concat (map nibble_fields regs)"
  by (simp add: serial_number_def serial_loop_append)

lemma length_bcd_digits: "length (bcd_digits w) = 4"
  by (simp add: bcd_digits_def)

text \<open>
  C9, as stated, fails: a register with a nibble above 9 contributes more than four
  characters, since each nibble is printed as a decimal integer. The registers
  [0x1234, 0x5678, 0x901A] give a serial number of 13 characters.
\<close>

theorem serial_number_not_bcd_counterexample:
  "serial_number [0x1234, 0x5678, 0x901A] = ''1234567890110'' \<and>
   length (serial_number [0x1234, 0x5678, 0x901A]) \<noteq> 12"
  by code_simp

text \<open>
  C9, amended. For every list of 3 raw words, the serial-number decode is the
  concatenation of the decimal renderings of the four nibbles of each word, most
  significant nibble first, the words in the order read. When the words are 16-bit and
  every nibble is a decimal digit, this is the 12-character string with one digit per
  nibble; [0x1234, 0x5678, 0x9012] decode to "123456789012".
\<close>

theorem serial_number_bcd:
  "serial_number [w0, w1, w2] = nibble_fields w0 @ nibble_fields w1 @ nibble_fields w2 \<and>
   (bcd_word w0 \<and> bcd_word w1 \<and> bcd_word w2 \<longrightarrow>
      serial_number [w0, w1, w2] = bcd_digits w0 @ bcd_digits w1 @ bcd_digits w2 \<and>
      length (serial_number [w0, w1, w2]) = 12) \<and>
   serial_number [0x1234, 0x5678, 0x9012] = ''123456789012''"
proof -
  have a: "serial_number [w0, w1, w2] = nibble_fields w0 @ nibble_fields w1 @ nibble_fields w2"
    by (simp add: serial_number_concat)
  have b: "serial_number [w0, w1, w2] = bcd_digits w0 @ bcd_digits w1 @ bcd_digits w2"
    if "bcd_word w0" and "bcd_word w1" and "bcd_word w2"
    using that by (simp add: serial_number_concat nibble_fields_bcd)
  have c: "serial_number [0x1234, 0x5678, 0x9012] = ''123456789012''"
    by code_simp
  show ?thesis using a b c by (simp add: length_bcd_digits)
qed

theorem serial_number_bcd_witness:
  "bcd_word 0x2024 \<and> bcd_word 0x0731 \<and> bcd_word 0x0042 \<and>
   serial_number [0x2024, 0x0731, 0x0042] = bcd_digits 0x2024 @ bcd_digits 0x0731 @ bcd_digits 0x0042 \<and>
   length (serial_number [0x2024, 0x0731, 0x0042]) = 12"
proof -
  have h: "bcd_word 0x2024 \<and> bcd_word 0x0731 \<and> bcd_word 0x0042"
    by code_simp
  show ?thesis
    using h serial_number_bcd [of "0x2024" "0x0731" "0x0042"] by blast
qed

section \<open>Write commands\<close>

text \<open>
  C5. For every integer rate, \<^verbatim>\<open>set_custom_flow_rate\<close> clamps the rate to [0, 400],
  first writes the control-mode register 8000 with 2 and, only if that write
  succeeded, writes the flow-rate register 8002 with the clamped value; if the first
  write fails the second is not issued and the operation reports failure.
\<close>

theorem set_custom_flow_rate_spec:
  assumes "handle c = Some dev"
  shows "set_custom_flow_rate c rate =
     (let v = (if rate > 400 then 400 else if rate < 0 then 0 else rate);
          first = WriteRegister 8000 2;
          second = WriteRegister 8002 v
      in if acknowledged (dev (requests c) first)
         then Inr (acknowledged (dev (requests c @ [first]) second), sent (sent c first) second)
         else Inr (False, sent c first))"
  using assms
  by (simp add: set_custom_flow_rate_def write_register_some REG_defs Let_def max_def min_def)

theorem set_custom_flow_rate_spec_witness:
  "set_custom_flow_rate demo_client 500 =
     Inr (True, \<lparr>handle = Some demo_device,
                 requests = [WriteRegister 8000 2, WriteRegister 8002 400]\<rparr>) \<and>
   set_custom_flow_rate demo_client (- 10) =
     Inr (True, \<lparr>handle = Some demo_device,
                 requests = [WriteRegister 8000 2, WriteRegister 8002 0]\<rparr>) \<and>
   set_custom_flow_rate dead_client 123 =
     Inr (False, \<lparr>handle = Some dead_device, requests = [WriteRegister 8000 2]\<rparr>)"
  using set_custom_flow_rate_spec [of demo_client demo_device 500]
    set_custom_flow_rate_spec [of demo_client demo_device "- 10"]
    set_custom_flow_rate_spec [of dead_client dead_device 123]
  by (simp add: demo_client_def demo_device_def dead_client_def dead_device_def
      acknowledged_def sent_def)

lemma switch_code:
  "map_of AIRFLOW_MODE_TO_SWITCH mode =
     (if mode = ''holiday'' then Some 0 else if mode = ''low'' then Some 1
      else if mode = ''normal'' then Some 2 else if mode = ''high'' then Some 3 else None)"
  by (simp add: AIRFLOW_MODE_TO_SWITCH_def)

text \<open>
  C6. For every string mode passed to \<^verbatim>\<open>set_airflow_mode\<close>: "wall_unit" causes
  exactly one write, register 8000 = 0; each of "holiday", "low", "normal", "high"
  causes a write of register 8000 = 1 followed, only if that succeeded, by a write of
  register 8001 with the mapped code (0, 1, 2, 3), reporting failure if either write
  fails; any other mode causes no write and reports failure.
\<close>

theorem set_airflow_mode_spec:
  "(mode \<notin> {''wall_unit'', ''holiday'', ''low'', ''normal'', ''high''} \<longrightarrow>
      set_airflow_mode c mode = Inr (False, c)) \<and>
   (\<forall>dev. handle c = Some dev \<longrightarrow>
      (mode = ''wall_unit'' \<longrightarrow>
         set_airflow_mode c mode =
           Inr (acknowledged (dev (requests c) (WriteRegister 8000 0)),
                sent c (WriteRegister 8000 0))) \<and>
      (mode \<in> {''holiday'', ''low'', ''normal'', ''high''} \<longrightarrow>
         set_airflow_mode c mode =
           (let code = (if mode = ''holiday'' then 0 else if mode = ''low'' then 1
                        else if mode = ''normal'' then 2 else 3);
                first = WriteRegister 8000 1;
                second = WriteRegister 8001 code
            in if acknowledged (dev (requests c) first)
               then Inr (acknowledged (dev (requests c @ [first]) second),
                         sent (sent c first) second)
               else Inr (False, sent c first))))"
  by (auto simp add: set_airflow_mode_def switch_code write_register_some REG_defs Let_def)

theorem set_airflow_mode_spec_witness:
  "set_airflow_mode demo_client ''invalid'' = Inr (False, demo_client) \<and>
   set_airflow_mode init_client ''invalid'' = Inr (False, init_client) \<and>
   set_airflow_mode demo_client ''wall_unit'' =
     Inr (True, \<lparr>handle = Some demo_device, requests = [WriteRegister 8000 0]\<rparr>) \<and>
   set_airflow_mode demo_client ''high'' =
     Inr (False, \<lparr>handle = Some demo_device,
                  requests = [WriteRegister 8000 1, WriteRegister 8001 3]\<rparr>) \<and>
   set_airflow_mode dead_client ''low'' =
     Inr (False, \<lparr>handle = Some dead_device, requests = [WriteRegister 8000 1]\<rparr>)"
  using set_airflow_mode_spec [of "''invalid''" demo_client]
    set_airflow_mode_spec [of "''invalid''" init_client]
    set_airflow_mode_spec [of "''wall_unit''" demo_client]
    set_airflow_mode_spec [of "''high''" demo_client]
    set_airflow_mode_spec [of "''low''" dead_client]
  by (simp add: demo_client_def demo_device_def dead_client_def dead_device_def
      acknowledged_def sent_def)

lemma bypass_reverse:
  "BYPASS_MODE_REVERSE mode =
     (if mode = ''Open'' then Some 2 else if mode = ''Closed'' then Some 1
      else if mode = ''Automatic'' then Some 0 else None)"
  by (simp add: BYPASS_MODE_REVERSE_def reverse_dict_def BYPASS_MODE_MAP_def)

lemma bypass_label:
  "label_of BYPASS_MODE_MAP 0 = ''Automatic''"
  "label_of BYPASS_MODE_MAP 1 = ''Closed''"
  "label_of BYPASS_MODE_MAP 2 = ''Open''"
  by (simp_all add: label_of_def BYPASS_MODE_MAP_def)

lemma decode_bypass_mode_label:
  "\<exists>d. decode_bypass_mode [code, t1, t2] data = Inr d \<and>
       d ''bypass_mode'' = Some (VStr (label_of BYPASS_MODE_MAP code))"
  by (simp add: decode_bypass_mode_def)

text \<open>
  C7. For every bypass mode label in {"Automatic", "Closed", "Open"},
  \<^verbatim>\<open>set_bypass_mode\<close> writes register 6100 with a code that the poll read's table
  decodes to the same label, also through the decoder of the bypass-mode batch; for
  every other label it issues no write and reports failure.
\<close>

theorem set_bypass_mode_roundtrip:
  "(mode \<in> {''Automatic'', ''Closed'', ''Open''} \<longrightarrow>
      (\<exists>code. set_bypass_mode c mode = write_register c 6100 code \<and>
         (\<forall>dev. handle c = Some dev \<longrightarrow>
            set_bypass_mode c mode =
              Inr (acknowledged (dev (requests c) (WriteRegister 6100 code)),
                   sent c (WriteRegister 6100 code))) \<and>
         label_of BYPASS_MODE_MAP code = mode \<and>
         (\<forall>t1 t2 data. \<exists>d. decode_bypass_mode [code, t1, t2] data = Inr d \<and>
            d ''bypass_mode'' = Some (VStr mode)))) \<and>
   (mode \<notin> {''Automatic'', ''Closed'', ''Open''} \<longrightarrow>
      set_bypass_mode c mode = Inr (False, c))"
proof -
  have valid: "\<exists>code. set_bypass_mode c mode = write_register c 6100 code \<and>
         (\<forall>dev. handle c = Some dev \<longrightarrow>
            set_bypass_mode c mode =
              Inr (acknowledged (dev (requests c) (WriteRegister 6100 code)),
                   sent c (WriteRegister 6100 code))) \<and>
         label_of BYPASS_MODE_MAP code = mode \<and>
         (\<forall>t1 t2 data. \<exists>d. decode_bypass_mode [code, t1, t2] data = Inr d \<and>
            d ''bypass_mode'' = Some (VStr mode))"
    if "BYPASS_MODE_REVERSE mode = Some code" and "label_of BYPASS_MODE_MAP code = mode"
    for code
  proof -
    have "set_bypass_mode c mode = write_register c 6100 code"
      using that by (simp add: set_bypass_mode_def REG_defs)
    moreover have "\<exists>d. decode_bypass_mode [code, t1, t2] data = Inr d \<and>
        d ''bypass_mode'' = Some (VStr mode)" for t1 t2 data
      using decode_bypass_mode_label [of code t1 t2 data] that by simp
    ultimately show ?thesis
      using that by (auto simp add: write_register_some)
  qed
  have "mode = ''Automatic'' \<Longrightarrow> ?thesis"
    using valid [of 0] by (simp add: bypass_reverse bypass_label)
  moreover have "mode = ''Closed'' \<Longrightarrow> ?thesis"
    using valid [of 1] by (simp add: bypass_reverse bypass_label)
  moreover have "mode = ''Open'' \<Longrightarrow> ?thesis"
    using valid [of 2] by (simp add: bypass_reverse bypass_label)
  moreover have "mode \<notin> {''Automatic'', ''Closed'', ''Open''} \<Longrightarrow> ?thesis"
    by (simp add: set_bypass_mode_def bypass_reverse)
  ultimately show ?thesis by blast
qed

theorem set_bypass_mode_roundtrip_witness:
  "(\<exists>code. set_bypass_mode demo_client ''Closed'' =
       Inr (True, \<lparr>handle = Some demo_device, requests = [WriteRegister 6100 code]\<rparr>) \<and>
     label_of BYPASS_MODE_MAP code = ''Closed'') \<and>
   set_bypass_mode demo_client ''Ajar'' = Inr (False, demo_client)"
  using set_bypass_mode_roundtrip [of "''Closed''" demo_client]
    set_bypass_mode_roundtrip [of "''Ajar''" demo_client]
  by (auto simp add: demo_client_def demo_device_def acknowledged_def sent_def)

section \<open>Coordinator\<close>















section \<open>A client that was never connected\<close>

lemma none_read_input:
  "handle c = None \<Longrightarrow> read_input_registers c a n = Inl (AttributeError, c)"
  by (simp add: read_input_registers_def)

lemma none_read_holding:
  "handle c = None \<Longrightarrow> read_holding_registers c a n = Inl (AttributeError, c)"
  by (simp add: read_holding_registers_def)

lemma none_write: "handle c = None \<Longrightarrow> write_register c a v = Inl (AttributeError, c)"
  by (simp add: write_register_def)

lemma perform_without_handle:
  "handle c = None \<Longrightarrow> \<not> is_connect call \<Longrightarrow> perform c call = c"
  by (cases call)
    (simp_all add: state_after_def close_def none_read_input none_read_holding none_write
      read_all_data_def set_airflow_mode_def set_custom_flow_rate_def set_bypass_mode_def
      split: option.splits)

lemma calls_without_connect:
  "\<not> list_ex is_connect calls \<Longrightarrow> foldl perform init_client calls = init_client"
proof (induction calls rule: rev_induct)
  case Nil
  show ?case by simp
next
  case (snoc call calls)
  then show ?case
    by (simp add: perform_without_handle init_client_def)
qed

text \<open>
  C10. On a client on which \<^verbatim>\<open>connect\<close> has never been called, whatever else has
  been called, every register read and write raises AttributeError instead of
  returning the failure result, with nothing handed to the library; a register
  operation that returns at all is on a client on which \<^verbatim>\<open>connect\<close> has been called.
\<close>

theorem never_connected_raises:
  "let c = foldl perform init_client calls in
     (\<not> list_ex is_connect calls \<longrightarrow>
        read_input_registers c a n = Inl (AttributeError, c) \<and>
        read_holding_registers c a n = Inl (AttributeError, c) \<and>
        write_register c a v = Inl (AttributeError, c)) \<and>
     ((\<exists>regs c'. read_input_registers c a n = Inr (regs, c')) \<or>
      (\<exists>regs c'. read_holding_registers c a n = Inr (regs, c')) \<or>
      (\<exists>ok c'. write_register c a v = Inr (ok, c')) \<longrightarrow> list_ex is_connect calls)"
proof -
  have "read_input_registers (foldl perform init_client calls) a n =
          Inl (AttributeError, foldl perform init_client calls) \<and>
        read_holding_registers (foldl perform init_client calls) a n =
          Inl (AttributeError, foldl perform init_client calls) \<and>
        write_register (foldl perform init_client calls) a v =
          Inl (AttributeError, foldl perform init_client calls)"
    if "\<not> list_ex is_connect calls"
    using calls_without_connect [OF that]
    by (simp add: init_client_def none_read_input none_read_holding none_write)
  then show ?thesis
    unfolding Let_def by (cases "list_ex is_connect calls") auto
qed

theorem never_connected_raises_witness:
  "read_input_registers init_client 4020 5 = Inl (AttributeError, init_client) \<and>
   write_register (foldl perform init_client [Close, SetAirflowMode ''low'', ReadAllData]) 8000 1
     = Inl (AttributeError, init_client) \<and>
   read_holding_registers (foldl perform init_client [WriteReg 8010 1]) 6100 3
     = Inl (AttributeError, init_client) \<and>
   list_ex is_connect [Close, Connect (Some dead_device) (Some False)] \<and>
   write_register (foldl perform init_client [Close, Connect (Some dead_device) (Some False)])
     8000 1 = Inr (False, \<lparr>handle = Some dead_device, requests = [WriteRegister 8000 1]\<rparr>)"
proof -
  have a: "foldl perform init_client [Close, SetAirflowMode ''low'', ReadAllData] = init_client"
    by (rule calls_without_connect) simp
  have b: "foldl perform init_client [WriteReg 8010 1] = init_client"
    by (rule calls_without_connect) simp
  show ?thesis
    using never_connected_raises [of "[]" 4020 5 0]
      never_connected_raises [of "[Close, SetAirflowMode ''low'', ReadAllData]" 8000 1 1]
      never_connected_raises [of "[WriteReg 8010 1]" 6100 3 0]
      never_connected_raises [of "[Close, Connect (Some dead_device) (Some False)]" 8000 1 1]
    unfolding a b
    by (simp add: Let_def init_client_def connect_def close_def write_register_def
        dead_device_def sent_def)
qed

section \<open>Poll read\<close>

subsection \<open>Each decoder adds its own keys\<close>

lemma good_core: "good_row (ReadInput a 5) decode_core (batch_keys ! 0)"
  by (auto simp add: good_row_def request_count_def fields_of_def decode_core_def batch_keys_def)

lemma good_supply_fan: "good_row (ReadInput a 8) decode_supply_fan (batch_keys ! 1)"
  by (auto simp add: good_row_def request_count_def fields_of_def decode_supply_fan_def batch_keys_def)

lemma good_exhaust_fan: "good_row (ReadInput a 8) decode_exhaust_fan (batch_keys ! 2)"
  by (auto simp add: good_row_def request_count_def fields_of_def decode_exhaust_fan_def batch_keys_def)

lemma good_bypass_status: "good_row (ReadInput a 2) decode_bypass_status (batch_keys ! 3)"
  by (auto simp add: good_row_def request_count_def fields_of_def decode_bypass_status_def batch_keys_def)

lemma good_preheater: "good_row (ReadInput a 2) decode_preheater (batch_keys ! 4)"
  by (auto simp add: good_row_def request_count_def fields_of_def decode_preheater_def batch_keys_def)

lemma good_frost: "good_row (ReadInput a 3) decode_frost (batch_keys ! 5)"
  by (auto simp add: good_row_def request_count_def fields_of_def decode_frost_def batch_keys_def)

lemma good_temperatures: "good_row (ReadInput a 4) decode_temperatures (batch_keys ! 6)"
  by (auto simp add: good_row_def request_count_def fields_of_def decode_temperatures_def batch_keys_def Let_def)

lemma good_filter_status: "good_row (ReadInput a 1) decode_filter_status (batch_keys ! 7)"
  by (auto simp add: good_row_def request_count_def fields_of_def decode_filter_status_def batch_keys_def)

lemma good_operating_hours: "good_row (ReadInput a 3) decode_operating_hours (batch_keys ! 8)"
  by (auto simp add: good_row_def request_count_def fields_of_def decode_operating_hours_def batch_keys_def)

lemma good_co2: "good_row (ReadInput a 4) decode_co2 (batch_keys ! 9)"
  by (auto simp add: good_row_def request_count_def fields_of_def decode_co2_def batch_keys_def)

lemma good_system_error: "good_row (ReadInput a 2) decode_system_error (batch_keys ! 10)"
  by (auto simp add: good_row_def request_count_def fields_of_def decode_system_error_def batch_keys_def)

lemma good_serial: "good_row (ReadInput a 3) decode_serial (batch_keys ! 11)"
  by (auto simp add: good_row_def request_count_def fields_of_def decode_serial_def batch_keys_def)

lemma good_flow_presets: "good_row (ReadHolding a 4) decode_flow_presets (batch_keys ! 12)"
  by (auto simp add: good_row_def request_count_def fields_of_def decode_flow_presets_def batch_keys_def)

lemma good_bypass_mode: "good_row (ReadHolding a 3) decode_bypass_mode (batch_keys ! 13)"
  by (auto simp add: good_row_def request_count_def fields_of_def decode_bypass_mode_def batch_keys_def)

lemma good_filter_warning_days: "good_row (ReadHolding a 1) decode_filter_warning_days (batch_keys ! 14)"
  by (auto simp add: good_row_def request_count_def fields_of_def decode_filter_warning_days_def batch_keys_def)

lemma good_remote_control: "good_row (ReadHolding a 4) decode_remote_control (batch_keys ! 15)"
  by (auto simp add: good_row_def request_count_def fields_of_def decode_remote_control_def batch_keys_def)

lemma keys_distinct: "distinct (concat batch_keys)"
  by (simp add: batch_keys_def)

subsection \<open>The table, row by row\<close>

lemma below_16:
  "(k::nat) < 16 \<Longrightarrow>
   k = 0 \<or> k = 1 \<or> k = 2 \<or> k = 3 \<or> k = 4 \<or> k = 5 \<or> k = 6 \<or> k = 7 \<or>
   k = 8 \<or> k = 9 \<or> k = 10 \<or> k = 11 \<or> k = 12 \<or> k = 13 \<or> k = 14 \<or> k = 15"
  by presburger

lemma rows_good:
  assumes "k < 16"
  shows "good_row (batch_requests ! k) (batch_decoders ! k) (batch_keys ! k)"
  using below_16 [OF assms]
  by (elim disjE)
    (simp_all add: batch_requests_def batch_decoders_def good_core
      good_supply_fan [unfolded One_nat_def] good_exhaust_fan good_bypass_status good_preheater good_frost good_temperatures
      good_filter_status good_operating_hours good_co2 good_system_error good_serial
      good_flow_presets good_bypass_mode good_filter_warning_days good_remote_control)

lemma map_add_at: "(m ++ n) x = (case n x of None \<Rightarrow> m x | Some v \<Rightarrow> Some v)"
  by (simp add: map_add_def)

lemma length_tables:
  "length batch_requests = 16" "length batch_decoders = 16" "length batch_keys = 16"
  by (simp_all add: batch_requests_def batch_decoders_def batch_keys_def)

subsection \<open>Keys of different batches do not meet\<close>

lemma disjoint_in_concat:
  "distinct (concat xss) \<Longrightarrow> i < j \<Longrightarrow> j < length xss \<Longrightarrow> set (xss ! i) \<inter> set (xss ! j) = {}"
proof (induction xss arbitrary: i j)
  case Nil
  then show ?case by simp
next
  case (Cons xs xss)
  show ?case
  proof (cases i)
    case 0
    then obtain j' where j: "j = Suc j'" and j': "j' < length xss"
      using Cons.prems by (cases j) auto
    have "set (xss ! j') \<subseteq> set (concat xss)"
      using nth_mem [OF j'] by auto
    moreover have "set xs \<inter> set (concat xss) = {}"
      using Cons.prems(1) by simp
    ultimately show ?thesis
      using 0 j by auto
  next
    case (Suc i')
    then obtain j' where j: "j = Suc j'" and "i' < j'" and "j' < length xss"
      using Cons.prems by (cases j) auto
    then show ?thesis
      using Cons.IH [of i' j'] Cons.prems(1) Suc by simp
  qed
qed

lemma keys_disjoint:
  assumes "j < 16" and "k < 16" and "j \<noteq> k"
  shows "set (batch_keys ! j) \<inter> set (batch_keys ! k) = {}"
proof (cases "j < k")
  case True
  then show ?thesis
    using disjoint_in_concat [OF keys_distinct, of j k] assms by (simp add: length_tables)
next
  case False
  then have "k < j" using assms by simp
  then show ?thesis
    using disjoint_in_concat [OF keys_distinct, of k j] assms by (auto simp add: length_tables)
qed

lemma foldl_map_add_none:
  "(\<forall>j < length segs. (segs ! j) key = None) \<Longrightarrow> foldl (++) m segs key = m key"
proof (induction segs rule: rev_induct)
  case Nil
  show ?case by simp
next
  case (snoc s segs)
  have "\<forall>j < length segs. (segs ! j) key = None"
  proof (intro allI impI)
    fix j assume "j < length segs"
    then show "(segs ! j) key = None"
      using snoc.prems [rule_format, of j] by (simp add: nth_append)
  qed
  moreover have "s key = None"
    using snoc.prems [rule_format, of "length segs"] by simp
  ultimately show ?case
    using snoc.IH by (simp add: map_add_at)
qed

lemma foldl_map_add_only:
  assumes "k < length segs" and "\<forall>j < length segs. j \<noteq> k \<longrightarrow> (segs ! j) key = None"
  shows "foldl (++) Map.empty segs key = (segs ! k) key"
  using assms
proof (induction segs rule: rev_induct)
  case Nil
  then show ?case by simp
next
  case (snoc s segs)
  define before where "before = foldl (++) Map.empty segs"
  have split: "foldl (++) Map.empty (segs @ [s]) key =
      (case s key of None \<Rightarrow> before key | Some v \<Rightarrow> Some v)"
    using map_add_at [of before s key] by (simp add: before_def)
  show ?case
  proof (cases "k = length segs")
    case True
    have "\<forall>j < length segs. (segs ! j) key = None"
    proof (intro allI impI)
      fix j assume j: "j < length segs"
      then show "(segs ! j) key = None"
        using snoc.prems(2) [rule_format, of j] True by (simp add: nth_append)
    qed
    then have "before key = None"
      by (simp add: before_def foldl_map_add_none)
    then show ?thesis
      unfolding split using True by (simp split: option.splits)
  next
    case False
    then have k: "k < length segs" using snoc.prems(1) by simp
    have rest: "\<forall>j < length segs. j \<noteq> k \<longrightarrow> (segs ! j) key = None"
    proof (intro allI impI)
      fix j assume "j < length segs" and "j \<noteq> k"
      then show "(segs ! j) key = None"
        using snoc.prems(2) [rule_format, of j] by (simp add: nth_append)
    qed
    have "s key = None"
      using snoc.prems(2) [rule_format, of "length segs"] False by simp
    then show ?thesis
      unfolding split using snoc.IH [OF k rest] k by (simp add: before_def nth_append)
  qed
qed

subsection \<open>The cycle, batch by batch\<close>

lemma full_reply:
  assumes "answers_in_full dev hist" and "k < 16" and "batch_reply dev hist k = Some ws"
  shows "int (length ws) = request_count (batch_requests ! k)"
  using assms by (simp add: answers_in_full_def length_tables)

lemma dom_batch_segment:
  assumes "answers_in_full dev hist" and "k < 16"
  shows "dom (batch_segment dev hist k) =
     (case batch_reply dev hist k of None \<Rightarrow> {} | Some ws \<Rightarrow> set (batch_keys ! k))"
proof (cases "batch_reply dev hist k")
  case None
  then show ?thesis by (simp add: batch_segment_def)
next
  case (Some ws)
  then show ?thesis
    using rows_good [OF assms(2)] full_reply [OF assms Some]
    by (simp add: batch_segment_def batch_fields_def good_row_def)
qed

lemma data_upto_lookup:
  assumes full: "answers_in_full dev hist" and k: "k < 16" and key: "key \<in> set (batch_keys ! k)"
  shows "data_upto dev hist 16 key = batch_segment dev hist k key"
proof -
  have other: "batch_segment dev hist j key = None" if "j < 16" and "j \<noteq> k" for j
  proof -
    have "key \<notin> set (batch_keys ! j)"
      using keys_disjoint [OF that(1) k that(2)] key by auto
    then have "key \<notin> dom (batch_segment dev hist j)"
      using dom_batch_segment [OF full that(1)] by (simp split: option.splits)
    then show ?thesis by auto
  qed
  show ?thesis
    unfolding data_upto_def
    using foldl_map_add_only [of k "map (batch_segment dev hist) [0..<16]" key] k other
    by simp
qed

lemma data_upto_Suc:
  "data_upto dev hist (Suc k) = data_upto dev hist k ++ batch_segment dev hist k"
  by (simp add: data_upto_def)

lemma at_batch_Suc:
  "k < 16 \<Longrightarrow> sent (at_batch c k) (batch_requests ! k) = at_batch c (Suc k)"
  by (simp add: at_batch_def sent_def take_Suc_conv_app_nth length_tables)

lemma read_input_some:
  "handle c = Some dev \<Longrightarrow>
   read_input_registers c a n =
     Inr (registers_of (dev (requests c) (ReadInput a n)), sent c (ReadInput a n))"
  by (simp add: read_input_registers_def registers_of_def split: reply.splits)

lemma read_holding_some:
  "handle c = Some dev \<Longrightarrow>
   read_holding_registers c a n =
     Inr (registers_of (dev (requests c) (ReadHolding a n)), sent c (ReadHolding a n))"
  by (simp add: read_holding_registers_def registers_of_def split: reply.splits)

lemma if_regs_segment:
  assumes "answers_in_full dev hist" and "k < 16"
  shows "if_regs (batch_reply dev hist k) (batch_decoders ! k) data =
     Inr (data ++ batch_segment dev hist k)"
proof (cases "batch_reply dev hist k")
  case None
  then show ?thesis by (simp add: if_regs_def batch_segment_def)
next
  case (Some ws)
  have g: "good_row (batch_requests ! k) (batch_decoders ! k) (batch_keys ! k)"
    using assms(2) by (rule rows_good)
  have len: "int (length ws) = request_count (batch_requests ! k)"
    using full_reply [OF assms Some] .
  have "ws \<noteq> []"
    using g len by (auto simp add: good_row_def)
  moreover have "(batch_decoders ! k) ws data = Inr (data ++ batch_fields k ws)"
    using g len by (simp add: good_row_def batch_fields_def)
  ultimately show ?thesis
    using Some by (simp add: if_regs_def batch_segment_def)
qed

lemma batch_input_at:
  assumes "handle c = Some dev" and "answers_in_full dev (requests c)" and "k < 16"
    and "batch_requests ! k = ReadInput a n" and "batch_decoders ! k = decode"
  shows "batch read_input_registers a n decode (data_upto dev (requests c) k) (at_batch c k) =
     Inr (data_upto dev (requests c) (Suc k), at_batch c (Suc k))"
proof -
  have h: "handle (at_batch c k) = Some dev"
    using assms(1) by (simp add: at_batch_def)
  have r: "registers_of (dev (requests (at_batch c k)) (ReadInput a n)) =
      batch_reply dev (requests c) k"
    using assms(4) by (simp add: batch_reply_def at_batch_def)
  show ?thesis
    using if_regs_segment [OF assms(2,3), of "data_upto dev (requests c) k"]
      at_batch_Suc [OF assms(3), of c] assms(4,5)
    by (simp add: batch_def read_input_some [OF h] r data_upto_Suc)
qed

lemma batch_holding_at:
  assumes "handle c = Some dev" and "answers_in_full dev (requests c)" and "k < 16"
    and "batch_requests ! k = ReadHolding a n" and "batch_decoders ! k = decode"
  shows "batch read_holding_registers a n decode (data_upto dev (requests c) k) (at_batch c k) =
     Inr (data_upto dev (requests c) (Suc k), at_batch c (Suc k))"
proof -
  have h: "handle (at_batch c k) = Some dev"
    using assms(1) by (simp add: at_batch_def)
  have r: "registers_of (dev (requests (at_batch c k)) (ReadHolding a n)) =
      batch_reply dev (requests c) k"
    using assms(4) by (simp add: batch_reply_def at_batch_def)
  show ?thesis
    using if_regs_segment [OF assms(2,3), of "data_upto dev (requests c) k"]
      at_batch_Suc [OF assms(3), of c] assms(4,5)
    by (simp add: batch_def read_holding_some [OF h] r data_upto_Suc)
qed

lemma first_reply:
  "batch_reply dev hist 0 = registers_of (dev hist (ReadInput 4020 5))"
  by (simp add: batch_reply_def batch_requests_def REG_defs)

lemma at_batch_0: "at_batch c 0 = c"
  by (simp add: at_batch_def)

lemma at_batch_1: "at_batch c 1 = sent c (ReadInput 4020 5)"
  using at_batch_Suc [of 0 c] by (simp add: at_batch_0 batch_requests_def REG_defs)

lemma at_batch_16: "at_batch c 16 = c\<lparr>requests := requests c @ batch_requests\<rparr>"
  by (simp add: at_batch_def length_tables)

lemma data_upto_0: "data_upto dev hist 0 = Map.empty"
  by (simp add: data_upto_def)

lemma read_all_data_without_first:
  assumes "handle c = Some dev" and "batch_reply dev (requests c) 0 = None"
  shows "read_all_data c = Inr (None, sent c (ReadInput 4020 5))"
  using assms
  by (simp add: read_all_data_def read_input_some REG_defs first_reply [symmetric])

lemma read_all_data_with_first:
  assumes "handle c = Some dev" and "answers_in_full dev (requests c)"
    and first: "batch_reply dev (requests c) 0 = Some ws0"
  shows "read_all_data c =
     Inr (Some (data_upto dev (requests c) 16), c\<lparr>requests := requests c @ batch_requests\<rparr>)"
proof -
  have s0: "read_input_registers c 4020 5 = Inr (Some ws0, at_batch c (Suc 0))"
    using first assms(1) at_batch_1 [of c] by (simp add: read_input_some first_reply)
  have "if_regs (batch_reply dev (requests c) 0) (batch_decoders ! 0) Map.empty =
      Inr (Map.empty ++ batch_segment dev (requests c) 0)"
    using if_regs_segment [OF assms(2), of 0 Map.empty] by simp
  moreover have "ws0 \<noteq> []"
    using full_reply [OF assms(2) _ first] by (auto simp add: batch_requests_def request_count_def)
  ultimately have d0: "decode_core ws0 Map.empty = Inr (data_upto dev (requests c) (Suc 0))"
    using first data_upto_Suc [of dev "requests c" 0]
    by (simp add: if_regs_def batch_decoders_def data_upto_0)
  have s1: "batch read_input_registers 4030 8 decode_supply_fan
        (data_upto dev (requests c) (Suc 0)) (at_batch c (Suc 0)) =
      Inr (data_upto dev (requests c) 2, at_batch c 2)"
    using batch_input_at [OF assms(1,2), of 1 4030 8 decode_supply_fan]
    by (simp add: batch_requests_def batch_decoders_def REG_defs numeral_2_eq_2)
  have s2: "batch read_input_registers 4040 8 decode_exhaust_fan (data_upto dev (requests c) 2) (at_batch c 2) =
      Inr (data_upto dev (requests c) 3, at_batch c 3)"
    using batch_input_at [OF assms(1,2), of 2 4040 8 decode_exhaust_fan]
    by (simp add: batch_requests_def batch_decoders_def REG_defs)
  have s3: "batch read_input_registers 4050 2 decode_bypass_status (data_upto dev (requests c) 3) (at_batch c 3) =
      Inr (data_upto dev (requests c) 4, at_batch c 4)"
    using batch_input_at [OF assms(1,2), of 3 4050 2 decode_bypass_status]
    by (simp add: batch_requests_def batch_decoders_def REG_defs)
  have s4: "batch read_input_registers 4060 2 decode_preheater (data_upto dev (requests c) 4) (at_batch c 4) =
      Inr (data_upto dev (requests c) 5, at_batch c 5)"
    using batch_input_at [OF assms(1,2), of 4 4060 2 decode_preheater]
    by (simp add: batch_requests_def batch_decoders_def REG_defs)
  have s5: "batch read_input_registers 4070 3 decode_frost (data_upto dev (requests c) 5) (at_batch c 5) =
      Inr (data_upto dev (requests c) 6, at_batch c 6)"
    using batch_input_at [OF assms(1,2), of 5 4070 3 decode_frost]
    by (simp add: batch_requests_def batch_decoders_def REG_defs)
  have s6: "batch read_input_registers 4080 4 decode_temperatures (data_upto dev (requests c) 6) (at_batch c 6) =
      Inr (data_upto dev (requests c) 7, at_batch c 7)"
    using batch_input_at [OF assms(1,2), of 6 4080 4 decode_temperatures]
    by (simp add: batch_requests_def batch_decoders_def REG_defs)
  have s7: "batch read_input_registers 4100 1 decode_filter_status (data_upto dev (requests c) 7) (at_batch c 7) =
      Inr (data_upto dev (requests c) 8, at_batch c 8)"
    using batch_input_at [OF assms(1,2), of 7 4100 1 decode_filter_status]
    by (simp add: batch_requests_def batch_decoders_def REG_defs)
  have s8: "batch read_input_registers 4113 3 decode_operating_hours (data_upto dev (requests c) 8) (at_batch c 8) =
      Inr (data_upto dev (requests c) 9, at_batch c 9)"
    using batch_input_at [OF assms(1,2), of 8 4113 3 decode_operating_hours]
    by (simp add: batch_requests_def batch_decoders_def REG_defs)
  have s9: "batch read_input_registers 4200 4 decode_co2 (data_upto dev (requests c) 9) (at_batch c 9) =
      Inr (data_upto dev (requests c) 10, at_batch c 10)"
    using batch_input_at [OF assms(1,2), of 9 4200 4 decode_co2]
    by (simp add: batch_requests_def batch_decoders_def REG_defs)
  have s10: "batch read_input_registers 4800 2 decode_system_error (data_upto dev (requests c) 10) (at_batch c 10) =
      Inr (data_upto dev (requests c) 11, at_batch c 11)"
    using batch_input_at [OF assms(1,2), of 10 4800 2 decode_system_error]
    by (simp add: batch_requests_def batch_decoders_def REG_defs)
  have s11: "batch read_input_registers 4010 3 decode_serial (data_upto dev (requests c) 11) (at_batch c 11) =
      Inr (data_upto dev (requests c) 12, at_batch c 12)"
    using batch_input_at [OF assms(1,2), of 11 4010 3 decode_serial]
    by (simp add: batch_requests_def batch_decoders_def REG_defs)
  have s12: "batch read_holding_registers 6000 4 decode_flow_presets (data_upto dev (requests c) 12) (at_batch c 12) =
      Inr (data_upto dev (requests c) 13, at_batch c 13)"
    using batch_holding_at [OF assms(1,2), of 12 6000 4 decode_flow_presets]
    by (simp add: batch_requests_def batch_decoders_def REG_defs)
  have s13: "batch read_holding_registers 6100 3 decode_bypass_mode (data_upto dev (requests c) 13) (at_batch c 13) =
      Inr (data_upto dev (requests c) 14, at_batch c 14)"
    using batch_holding_at [OF assms(1,2), of 13 6100 3 decode_bypass_mode]
    by (simp add: batch_requests_def batch_decoders_def REG_defs)
  have s14: "batch read_holding_registers 6120 1 decode_filter_warning_days (data_upto dev (requests c) 14) (at_batch c 14) =
      Inr (data_upto dev (requests c) 15, at_batch c 15)"
    using batch_holding_at [OF assms(1,2), of 14 6120 1 decode_filter_warning_days]
    by (simp add: batch_requests_def batch_decoders_def REG_defs)
  have s15: "batch read_holding_registers 8000 4 decode_remote_control (data_upto dev (requests c) 15) (at_batch c 15) =
      Inr (data_upto dev (requests c) 16, at_batch c 16)"
    using batch_holding_at [OF assms(1,2), of 15 8000 4 decode_remote_control]
    by (simp add: batch_requests_def batch_decoders_def REG_defs)
  show ?thesis
    by (simp add: read_all_data_def REG_defs s0 d0 s1 s2 s3 s4 s5 s6 s7 s8 s9 s10 s11 s12 s13 s14 s15 at_batch_16)
qed

subsection \<open>The example device answers in full\<close>

lemma demo_reply_length:
  assumes "registers_of (demo_device hist rq) = Some ws" and "0 \<le> request_count rq"
  shows "int (length ws) = request_count rq"
  using assms
  by (cases rq) (auto simp add: demo_device_def registers_of_def request_count_def split: if_splits)

lemma demo_answers_in_full: "answers_in_full demo_device hist"
  unfolding answers_in_full_def
proof (intro allI impI)
  fix k ws
  assume k: "k < length batch_requests"
    and r: "batch_reply demo_device hist k = Some ws"
  have "0 < request_count (batch_requests ! k)"
    using rows_good [of k] k by (simp add: good_row_def length_tables)
  then show "int (length ws) = request_count (batch_requests ! k)"
    using demo_reply_length [of "hist @ take k batch_requests" "batch_requests ! k" ws] r
    by (simp add: batch_reply_def)
qed

subsection \<open>The poll cycle\<close>

text \<open>
  C1, as stated, fails: a batch that is answered with fewer registers than requested is
  not a failed batch, passes \<^verbatim>\<open>if regs:\<close>, and the index beyond its end raises
  IndexError out of \<^verbatim>\<open>read_all_data\<close>. With the first batch answered in full and the
  frost batch answered with two registers, the cycle raises after six reads and returns
  no snapshot.
\<close>

theorem read_all_data_short_reply_counterexample:
  "batch_reply short_device (requests short_client) 0 = Some [1, 1, 1, 1, 1] \<and>
   batch_reply short_device (requests short_client) 5 = Some [1, 2] \<and>
   read_all_data short_client =
     Inl (IndexError,
          \<lparr>handle = Some short_device,
           requests = [ReadInput 4020 5, ReadInput 4030 8, ReadInput 4040 8, ReadInput 4050 2,
                       ReadInput 4060 2, ReadInput 4070 3]\<rparr>)"
proof -
  have "batch_reply short_device (requests short_client) 0 = Some [1, 1, 1, 1, 1]"
    by (simp add: batch_reply_def batch_requests_def short_device_def registers_of_def
        REG_defs numeral_eq_Suc)
  moreover have "batch_reply short_device (requests short_client) 5 = Some [1, 2]"
    by (simp add: batch_reply_def batch_requests_def short_device_def registers_of_def
        REG_defs)
  moreover have "read_all_data short_client =
     Inl (IndexError,
          \<lparr>handle = Some short_device,
           requests = [ReadInput 4020 5, ReadInput 4030 8, ReadInput 4040 8, ReadInput 4050 2,
                       ReadInput 4060 2, ReadInput 4070 3]\<rparr>)"
    by (rule read_all_data_short_client)
  ultimately show ?thesis by blast
qed

text \<open>
  C1, amended. On a connected client: when the first batched read (5 input registers
  from 4020) fails, \<^verbatim>\<open>read_all_data\<close> returns no snapshot, after that one request.
  When it succeeds and every batch that is answered carries as many registers as its
  request asked for, a snapshot is returned after all sixteen reads, and for every batch
  and every key of that batch, the key is absent from the snapshot when the batch
  failed, and present with the value its batch's decoder gives it when the batch
  succeeded.
\<close>

theorem read_all_data_batches:
  assumes "handle c = Some dev"
  shows "(batch_reply dev (requests c) 0 = None \<longrightarrow>
            read_all_data c = Inr (None, sent c (ReadInput 4020 5))) \<and>
         (answers_in_full dev (requests c) \<longrightarrow>
            (\<forall>ws0. batch_reply dev (requests c) 0 = Some ws0 \<longrightarrow>
               (\<exists>data. read_all_data c =
                    Inr (Some data, c\<lparr>requests := requests c @ batch_requests\<rparr>) \<and>
                  (\<forall>k < 16. \<forall>key \<in> set (batch_keys ! k).
                     (case batch_reply dev (requests c) k of
                        None \<Rightarrow> data key = None
                      | Some ws \<Rightarrow> data key \<noteq> None \<and> data key = batch_fields k ws key)))))"
proof (intro conjI allI impI)
  assume "batch_reply dev (requests c) 0 = None"
  then show "read_all_data c = Inr (None, sent c (ReadInput 4020 5))"
    using assms by (simp add: read_all_data_without_first)
next
  fix ws0
  assume full: "answers_in_full dev (requests c)"
    and first: "batch_reply dev (requests c) 0 = Some ws0"
  have fields: "case batch_reply dev (requests c) k of
       None \<Rightarrow> data_upto dev (requests c) 16 key = None
     | Some ws \<Rightarrow> data_upto dev (requests c) 16 key \<noteq> None \<and>
         data_upto dev (requests c) 16 key = batch_fields k ws key"
    if k: "k < 16" and key: "key \<in> set (batch_keys ! k)" for k key
  proof (cases "batch_reply dev (requests c) k")
    case None
    then show ?thesis
      using data_upto_lookup [OF full k key] by (simp add: batch_segment_def)
  next
    case (Some ws)
    have "key \<in> dom (batch_segment dev (requests c) k)"
      using dom_batch_segment [OF full k] Some key by simp
    then show ?thesis
      using data_upto_lookup [OF full k key] Some by (auto simp add: batch_segment_def)
  qed
  show "\<exists>data. read_all_data c =
       Inr (Some data, c\<lparr>requests := requests c @ batch_requests\<rparr>) \<and>
     (\<forall>k < 16. \<forall>key \<in> set (batch_keys ! k).
        (case batch_reply dev (requests c) k of
           None \<Rightarrow> data key = None
         | Some ws \<Rightarrow> data key \<noteq> None \<and> data key = batch_fields k ws key))"
    using read_all_data_with_first [OF assms full first] fields by blast
qed

theorem read_all_data_batches_witness:
  "read_all_data dead_client =
     Inr (None, \<lparr>handle = Some dead_device, requests = [ReadInput 4020 5]\<rparr>) \<and>
   (\<exists>data. read_all_data demo_client =
        Inr (Some data, \<lparr>handle = Some demo_device, requests = batch_requests\<rparr>) \<and>
      data ''bypass_status'' = None \<and>
      data ''preheater_capacity'' = None \<and>
      data ''active_function'' = Some (VStr ''Bootloader'') \<and>
      data ''filter_status'' = Some (VStr ''Dirty'') \<and>
      data ''filter_warning_days'' = Some (VInt 1))"
proof -
  have dead: "read_all_data dead_client =
      Inr (None, \<lparr>handle = Some dead_device, requests = [ReadInput 4020 5]\<rparr>)"
    using read_all_data_batches [of dead_client dead_device]
    by (simp add: dead_client_def sent_def batch_reply_def dead_device_def registers_of_def)
  have h: "handle demo_client = Some demo_device"
    by (simp add: demo_client_def)
  have r0: "batch_reply demo_device (requests demo_client) 0 = Some [1, 1, 1, 1, 1]"
    by (simp add: batch_reply_def batch_requests_def demo_device_def registers_of_def REG_defs
        numeral_eq_Suc)
  have r3: "batch_reply demo_device (requests demo_client) 3 = None"
    by (simp add: batch_reply_def batch_requests_def demo_device_def registers_of_def REG_defs)
  have r4: "batch_reply demo_device (requests demo_client) 4 = None"
    by (simp add: batch_reply_def batch_requests_def demo_device_def registers_of_def REG_defs)
  have r7: "batch_reply demo_device (requests demo_client) 7 = Some [1]"
    by (simp add: batch_reply_def batch_requests_def demo_device_def registers_of_def REG_defs)
  have r14: "batch_reply demo_device (requests demo_client) 14 = Some [1]"
    by (simp add: batch_reply_def batch_requests_def demo_device_def registers_of_def REG_defs)
  obtain data where d: "read_all_data demo_client =
        Inr (Some data, demo_client\<lparr>requests := requests demo_client @ batch_requests\<rparr>)"
    and fields: "\<forall>k < 16. \<forall>key \<in> set (batch_keys ! k).
        (case batch_reply demo_device (requests demo_client) k of
           None \<Rightarrow> data key = None
         | Some ws \<Rightarrow> data key \<noteq> None \<and> data key = batch_fields k ws key)"
    using read_all_data_batches [OF h] demo_answers_in_full r0 by blast
  have "data ''bypass_status'' = None"
    using fields [rule_format, of 3 "''bypass_status''"] r3 by (simp add: batch_keys_def)
  moreover have "data ''preheater_capacity'' = None"
    using fields [rule_format, of 4 "''preheater_capacity''"] r4 by (simp add: batch_keys_def)
  moreover have "data ''active_function'' = Some (VStr ''Bootloader'')"
    using fields [rule_format, of 0 "''active_function''"] r0
    by (simp add: batch_keys_def batch_fields_def batch_decoders_def fields_of_def
        decode_core_def label_of_def ACTIVE_FUNCTION_MAP_def)
  moreover have "data ''filter_status'' = Some (VStr ''Dirty'')"
    using fields [rule_format, of 7 "''filter_status''"] r7
    by (simp add: batch_keys_def batch_fields_def batch_decoders_def fields_of_def
        decode_filter_status_def label_of_def FILTER_STATUS_MAP_def)
  moreover have "data ''filter_warning_days'' = Some (VInt 1)"
    using fields [rule_format, of 14 "''filter_warning_days''"] r14
    by (simp add: batch_keys_def batch_fields_def batch_decoders_def fields_of_def
        decode_filter_warning_days_def)
  ultimately show ?thesis
    using dead d by (simp add: demo_client_def)
qed

end
